theory Spec2Isabelle
  imports Main
begin

section \<open>Data of the authentication controller\<close>

text \<open>
  The module \<^verbatim>\<open>src/server/controllers/auth.js\<close> exports Express handlers that talk to
  a Mongoose model \<^verbatim>\<open>User\<close>, to \<^verbatim>\<open>jsonwebtoken\<close>, to \<^verbatim>\<open>shortid\<close> and to AWS SES.
  Each handler is embedded as a function from the stored accounts to a \<open>run\<close>: the
  accounts afterwards, the ordered effects of the request, and \<^verbatim>\<open>req.profile\<close>.
\<close>

text \<open>JSON values as far as the handlers build them: strings and object literals.\<close>

datatype json = JString string | JObject "(string \<times> json) list"

text \<open>
  A document of the \<^verbatim>\<open>User\<close> collection, with the fields the controller reads and
  writes. The field \<open>u_id\<close> is Mongo's \<^verbatim>\<open>_id\<close> (an Isabelle name cannot start with an
  underscore).
\<close>

record account =
  u_id :: string
  username :: string
  name :: string
  email :: string
  password :: string
  role :: string
  resetPasswordLink :: string

text \<open>The values the module reads from \<^verbatim>\<open>process.env\<close>.\<close>

record config =
  JWT_ACCOUNT_ACTIVATION :: string
  JWT_SECRET :: string
  JWT_RESET_PASSWORD :: string
  JWT_EXPIRED :: string
  APPLICATION_ERROR_CODE :: nat

text \<open>
  The collaborators of one request, none of which is defined in the module: the
  \<^verbatim>\<open>jsonwebtoken\<close> calls at the time of the request (\<open>jwt_sign\<close> takes payload,
  secret and \<^verbatim>\<open>expiresIn\<close>; \<open>jwt_verify\<close> takes token and secret and is \<open>True\<close> when
  the callback receives no error; \<open>jwt_decode\<close> gives the \<^verbatim>\<open>name\<close>, \<^verbatim>\<open>email\<close> and
  \<^verbatim>\<open>password\<close> of the payload), \<^verbatim>\<open>shortId.generate()\<close>, the identifier Mongo gives
  a new document, the \<^verbatim>\<open>authenticate\<close> method and the role default of the model,
  \<^verbatim>\<open>listEnum.user.role.admin\<close>, and whether the store lookup, the document save, the
  document update and the SES delivery of this request fail.
\<close>

record world =
  jwt_sign :: "json \<Rightarrow> string \<Rightarrow> string \<Rightarrow> string"
  jwt_verify :: "string \<Rightarrow> string \<Rightarrow> bool"
  jwt_decode :: "string \<Rightarrow> string \<times> string \<times> string"
  shortId_generate :: string
  new_object_id :: string
  authenticate :: "account \<Rightarrow> string \<Rightarrow> bool"
  default_role :: string
  admin_role :: string
  find_fails :: bool
  save_fails :: bool
  update_fails :: bool
  send_fails :: bool

text \<open>
  What a JavaScript callback can throw here: the read of an identifier that is declared
  nowhere, and Express refusing a second response on the same \<^verbatim>\<open>res\<close>.
\<close>

datatype exn = ReferenceError string | ERR_HTTP_HEADERS_SENT

text \<open>
  The parameter objects built by \<^verbatim>\<open>emailVerificationParams(email, token)\<close> and
  \<^verbatim>\<open>emailForgetPasswordParams(email, token)\<close> of \<^verbatim>\<open>../utils/email\<close>.
\<close>

datatype mail = EmailVerification string string | EmailForgetPassword string string

text \<open>
  The effects of a request in the order the handler performs them: a response that
  reached the client (status, body), a call of \<^verbatim>\<open>ses.sendEmail\<close>, a document
  written by \<^verbatim>\<open>save\<close>, a successful \<^verbatim>\<open>updateOne\<close> of the reset link (document
  identifier, token), a call of \<^verbatim>\<open>next()\<close>, and an exception thrown by a callback.
\<close>

datatype event =
    Responded nat json
  | SesSendEmail mail
  | Saved account
  | UpdatedOne string string
  | NextCalled
  | Thrown exn

record run =
  db :: "account list"
  trace :: "event list"
  profile :: "account option"

text \<open>Request bodies.\<close>

record register_body =
  reg_name :: string
  reg_email :: string
  reg_password :: string

record login_body =
  login_email :: string
  login_password :: string

text \<open>
  \<^verbatim>\<open>const {resetPasswordLink, newPassword} = req.body\<close>: the link may be absent
  (\<open>None\<close>) or the empty string; both are falsy in \<^verbatim>\<open>if(resetPasswordLink)\<close>.
\<close>

record reset_body =
  rp_resetPasswordLink :: "string option"
  rp_newPassword :: string

section \<open>Express, Mongoose and SES primitives\<close>

definition start :: "account list \<Rightarrow> run" where
  "start accounts = \<lparr>db = accounts, trace = [], profile = None\<rparr>"

text \<open>The response the client received: the first one of the trace.\<close>

fun sent :: "event list \<Rightarrow> (nat \<times> json) option" where
  "sent [] = None"
| "sent (Responded c b # es) = Some (c, b)"
| "sent (e # es) = sent es"

text \<open>
  \<^verbatim>\<open>res.status(code).json(body)\<close>. Once a response has been sent, Express throws
  \<^verbatim>\<open>ERR_HTTP_HEADERS_SENT\<close> on the next one and the client keeps the first.
\<close>

definition res_json :: "nat \<Rightarrow> json \<Rightarrow> run \<Rightarrow> run" where
  "res_json code body r =
     (case sent (trace r) of
        None \<Rightarrow> r\<lparr>trace := trace r @ [Responded code body]\<rparr>
      | Some x \<Rightarrow> r\<lparr>trace := trace r @ [Thrown ERR_HTTP_HEADERS_SENT]\<rparr>)"

definition throw :: "exn \<Rightarrow> run \<Rightarrow> run" where
  "throw e r = r\<lparr>trace := trace r @ [Thrown e]\<rparr>"

definition error_body :: "string \<Rightarrow> json" where
  "error_body s = JObject [(''error'', JString s)]"

definition message_body :: "string \<Rightarrow> json" where
  "message_body s = JObject [(''message'', JString s)]"

text \<open>
  \<^verbatim>\<open>User.findOne(query).exec((err, user) => ...)\<close>: the pair (err, user). A failing
  lookup passes an error and no document; otherwise the first matching document.
\<close>

definition findOne :: "world \<Rightarrow> (account \<Rightarrow> bool) \<Rightarrow> account list \<Rightarrow> bool \<times> account option" where
  "findOne w q accounts =
     (if find_fails w then (True, None) else (False, List.find q accounts))"

text \<open>
  \<^verbatim>\<open>new User({username, name, email, password})\<close>: the model (not in the module) fills
  in the identifier, the role default and an empty reset link.
\<close>

definition new_User :: "world \<Rightarrow> string \<Rightarrow> string \<Rightarrow> string \<Rightarrow> string \<Rightarrow> account" where
  "new_User w un n e p =
     \<lparr>u_id = new_object_id w, username = un, name = n, email = e, password = p,
      role = default_role w, resetPasswordLink = ''''\<rparr>"

text \<open>\<^verbatim>\<open>newUser.save((err, result) => ...)\<close> of a new document: an insert.\<close>

definition save_new :: "world \<Rightarrow> account \<Rightarrow> run \<Rightarrow> bool \<times> run" where
  "save_new w u r =
     (if save_fails w then (True, r)
      else (False, r\<lparr>db := db r @ [u], trace := trace r @ [Saved u]\<rparr>))"

text \<open>
  \<^verbatim>\<open>user.save((err, result) => ...)\<close> of a document that was read from the store:
  the stored document with its identifier is replaced.
\<close>

definition save :: "world \<Rightarrow> account \<Rightarrow> run \<Rightarrow> bool \<times> run" where
  "save w u r =
     (if save_fails w then (True, r)
      else (False, r\<lparr>db := map (\<lambda>a. if u_id a = u_id u then u else a) (db r),
                      trace := trace r @ [Saved u]\<rparr>))"

text \<open>\<^verbatim>\<open>user.updateOne({resetPasswordLink: token}, (err, success) => ...)\<close>.\<close>

definition updateOne :: "world \<Rightarrow> account \<Rightarrow> string \<Rightarrow> run \<Rightarrow> bool \<times> run" where
  "updateOne w u token r =
     (if update_fails w then (True, r)
      else (False,
        r\<lparr>db := map (\<lambda>a. if u_id a = u_id u then a\<lparr>resetPasswordLink := token\<rparr> else a) (db r),
          trace := trace r @ [UpdatedOne (u_id u) token]\<rparr>))"

text \<open>\<^verbatim>\<open>ses.sendEmail(params).promise()\<close>: the call; \<open>send_fails\<close> decides the promise.\<close>

definition ses_sendEmail :: "mail \<Rightarrow> run \<Rightarrow> run" where
  "ses_sendEmail m r = r\<lparr>trace := trace r @ [SesSendEmail m]\<rparr>"

section \<open>The handlers\<close>

definition register :: "config \<Rightarrow> world \<Rightarrow> register_body \<Rightarrow> account list \<Rightarrow> run" where
  "register cfg w body accounts =
     (case snd (findOne w (\<lambda>a. email a = reg_email body) accounts) of
        Some user \<Rightarrow> res_json 400 (error_body ''Email is taken'') (start accounts)
      | None \<Rightarrow>
          let token = jwt_sign w
                (JObject [(''name'', JString (reg_name body)),
                          (''email'', JString (reg_email body)),
                          (''password'', JString (reg_password body))])
                (JWT_ACCOUNT_ACTIVATION cfg) (JWT_EXPIRED cfg);
              r = ses_sendEmail (EmailVerification (reg_email body) token) (start accounts)
          in if send_fails w
             then res_json 422
                    (error_body (''We could not verify your email '' @ reg_email body
                       @ ''. Please try again'')) r
             else res_json 200
                    (message_body (''Email has been sent to '' @ reg_email body
                       @ ''. Follow the instructions to complete your registration'')) r)"

definition registerActivate :: "config \<Rightarrow> world \<Rightarrow> string \<Rightarrow> account list \<Rightarrow> run" where
  "registerActivate cfg w token accounts =
     (if \<not> jwt_verify w token (JWT_ACCOUNT_ACTIVATION cfg)
      then res_json (APPLICATION_ERROR_CODE cfg) (error_body ''Expired link. Try again'')
             (start accounts)
      else
        (case jwt_decode w token of (n, e, p) \<Rightarrow>
          (case snd (findOne w (\<lambda>a. email a = e) accounts) of
             Some user \<Rightarrow> res_json 401 (error_body ''Email is already taken'') (start accounts)
           | None \<Rightarrow>
               (case save_new w (new_User w (shortId_generate w) n e p) (start accounts) of
                  (True, r) \<Rightarrow> res_json 401 (error_body ''Unable to save your data. Try again.'') r
                | (False, r) \<Rightarrow> res_json 200 (message_body ''Registration success. Please login.'') r))))"

definition login :: "config \<Rightarrow> world \<Rightarrow> login_body \<Rightarrow> account list \<Rightarrow> run" where
  "login cfg w body accounts =
     (case snd (findOne w (\<lambda>a. email a = login_email body) accounts) of
        None \<Rightarrow>
          res_json (APPLICATION_ERROR_CODE cfg)
            (error_body ''User with that email doesn't exists. Please register.'') (start accounts)
      | Some user \<Rightarrow>
          if \<not> authenticate w user (login_password body)
          then res_json (APPLICATION_ERROR_CODE cfg)
                 (error_body ''Password isn't match. Please try again.'') (start accounts)
          else
            let token = jwt_sign w (JObject [(''_id'', JString (u_id user))]) (JWT_SECRET cfg) ''7d''
            in res_json 200
                 (JObject [(''token'', JString token),
                           (''user'', JObject [(''_id'', JString (u_id user)),
                                               (''name'', JString (name user)),
                                               (''email'', JString (email user)),
                                               (''role'', JString (role user))])])
                 (start accounts))"

text \<open>The argument \<open>authUserId\<close> is \<^verbatim>\<open>req.user._id\<close>, set by \<^verbatim>\<open>requireSignIn\<close>.\<close>

definition authMiddleware :: "config \<Rightarrow> world \<Rightarrow> string \<Rightarrow> account list \<Rightarrow> run" where
  "authMiddleware cfg w authUserId accounts =
     (case snd (findOne w (\<lambda>a. u_id a = authUserId) accounts) of
        None \<Rightarrow> res_json (APPLICATION_ERROR_CODE cfg) (error_body ''User is not found'') (start accounts)
      | Some user \<Rightarrow>
          (start accounts)\<lparr>profile := Some user, trace := [NextCalled]\<rparr>)"

definition adminMiddleware :: "config \<Rightarrow> world \<Rightarrow> string \<Rightarrow> account list \<Rightarrow> run" where
  "adminMiddleware cfg w authAdminId accounts =
     (case snd (findOne w (\<lambda>a. u_id a = authAdminId) accounts) of
        None \<Rightarrow> res_json (APPLICATION_ERROR_CODE cfg) (error_body ''User is not found'') (start accounts)
      | Some user \<Rightarrow>
          if role user \<noteq> admin_role w
          then res_json (APPLICATION_ERROR_CODE cfg)
                 (error_body ''Admin resource. Access is denied.'') (start accounts)
          else (start accounts)\<lparr>profile := Some user, trace := [NextCalled]\<rparr>)"

text \<open>
  In the \<^verbatim>\<open>.catch\<close> of the delivery, the argument of \<^verbatim>\<open>res.status\<close> is the bare
  identifier \<^verbatim>\<open>APPLICATION_ERROR_CODE\<close>, which the module declares nowhere (every other
  place reads \<^verbatim>\<open>process.env.APPLICATION_ERROR_CODE\<close>): evaluating it throws a
  ReferenceError before \<^verbatim>\<open>res.status\<close> is called.
\<close>

definition forgetPassword :: "config \<Rightarrow> world \<Rightarrow> string \<Rightarrow> account list \<Rightarrow> run" where
  "forgetPassword cfg w em accounts =
     (case snd (findOne w (\<lambda>a. email a = em) accounts) of
        None \<Rightarrow>
          res_json (APPLICATION_ERROR_CODE cfg)
            (error_body ''User with that email does not exists'') (start accounts)
      | Some user \<Rightarrow>
          let token = jwt_sign w (JObject [(''name'', JString (name user))])
                        (JWT_RESET_PASSWORD cfg) ''60m'';
              params = EmailForgetPassword em token
          in (case updateOne w user token (start accounts) of
                (True, r) \<Rightarrow>
                  res_json (APPLICATION_ERROR_CODE cfg)
                    (error_body ''Reset password is failed. Try later.'') r
              | (False, r) \<Rightarrow>
                  let r' = ses_sendEmail params r
                  in if send_fails w
                     then throw (ReferenceError ''APPLICATION_ERROR_CODE'') r'
                     else res_json 200
                            (message_body (''Email has been sent to '' @ em
                               @ ''. Click on the link to reset password'')) r'))"

text \<open>
  The \<^verbatim>\<open>return\<close> of the expired-token response is inside the callback of
  \<^verbatim>\<open>jwt.verify\<close>, so the handler goes on to the lookup whatever the verification
  said. The failure branch of \<^verbatim>\<open>user.save\<close> reads the undeclared identifier
  \<^verbatim>\<open>APPLICATION_ERROR_CODE\<close> as well.
\<close>

definition resetPassword :: "config \<Rightarrow> world \<Rightarrow> reset_body \<Rightarrow> account list \<Rightarrow> run" where
  "resetPassword cfg w body accounts =
     (case rp_resetPasswordLink body of
        None \<Rightarrow> start accounts
      | Some link \<Rightarrow>
          if link = [] then start accounts
          else
            let r = (if \<not> jwt_verify w link (JWT_RESET_PASSWORD cfg)
                     then res_json (APPLICATION_ERROR_CODE cfg)
                            (error_body ''Token is expired. Try again later.'') (start accounts)
                     else start accounts)
            in (case snd (findOne w (\<lambda>a. resetPasswordLink a = link) (db r)) of
                  None \<Rightarrow>
                    res_json (APPLICATION_ERROR_CODE cfg)
                      (error_body ''Password reset failed. Try again later.'') r
                | Some user \<Rightarrow>
                    (case save w (user\<lparr>password := rp_newPassword body, resetPasswordLink := ''''\<rparr>) r of
                       (True, r') \<Rightarrow> throw (ReferenceError ''APPLICATION_ERROR_CODE'') r'
                     | (False, r') \<Rightarrow> res_json 200 (message_body ''Reset password is success.'') r')))"

section \<open>Reading responses\<close>

text \<open>Property access on a JSON value, and the own keys of an object in order.\<close>

fun field :: "json \<Rightarrow> string \<Rightarrow> json option" where
  "field (JObject kvs) k = map_of kvs k"
| "field (JString s) k = None"

fun keys :: "json \<Rightarrow> string list" where
  "keys (JObject kvs) = map fst kvs"
| "keys (JString s) = []"

section \<open>A concrete configuration, world and store\<close>

text \<open>
  A stand-in for \<^verbatim>\<open>jsonwebtoken\<close>, used only to run the handlers on concrete
  requests: the token is the secret, the first claim of the payload and the expiry
  joined by dots, and it verifies under a secret when it starts with that secret. As with
  the library within one second, equal payload, secret and expiry give equal tokens.
\<close>

definition toy_sign :: "json \<Rightarrow> string \<Rightarrow> string \<Rightarrow> string" where
  "toy_sign p s e =
     (case p of
        JObject ((k, JString v) # kvs) \<Rightarrow> s @ ''.'' @ v @ ''.'' @ e
      | _ \<Rightarrow> s @ ''..'' @ e)"

definition toy_verify :: "string \<Rightarrow> string \<Rightarrow> bool" where
  "toy_verify t s = (take (length s) t = s)"

definition cfg0 :: config where
  "cfg0 = \<lparr>JWT_ACCOUNT_ACTIVATION = ''act'', JWT_SECRET = ''ses'', JWT_RESET_PASSWORD = ''rst'',
           JWT_EXPIRED = ''10m'', APPLICATION_ERROR_CODE = 401\<rparr>"

definition w0 :: world where
  "w0 = \<lparr>jwt_sign = toy_sign, jwt_verify = toy_verify,
          jwt_decode = (\<lambda>t. (''Ann'', ''ann@x.com'', ''p1'')),
          shortId_generate = ''s1'', new_object_id = ''3'',
          authenticate = (\<lambda>a p. password a = p),
          default_role = ''subscriber'', admin_role = ''admin'',
          find_fails = False, save_fails = False, update_fails = False, send_fails = False\<rparr>"

text \<open>
  The same collaborators more than an hour later: the tokens signed now carry a later
  issue time (the mark \<open>.later\<close>), and a token without the mark has expired.
\<close>

definition w_later :: world where
  "w_later = w0\<lparr>jwt_sign := (\<lambda>p s e. toy_sign p s e @ ''.later''),
                 jwt_verify := (\<lambda>t s. toy_verify t s \<and> drop (length t - 6) t = ''.later'')\<rparr>"

text \<open>Two accounts whose holders have the same display name; the second is an admin.\<close>

definition bob :: account where
  "bob = \<lparr>u_id = ''1'', username = ''u1'', name = ''Bob'', email = ''bob@x.com'',
           password = ''pw1'', role = ''subscriber'', resetPasswordLink = ''''\<rparr>"

definition rob :: account where
  "rob = \<lparr>u_id = ''2'', username = ''u2'', name = ''Bob'', email = ''rob@x.com'',
           password = ''pw2'', role = ''admin'', resetPasswordLink = ''''\<rparr>"

section \<open>Facts about the store lookup\<close>

lemma findOne_found_iff:
  "findOne w q accounts = (False, Some u) \<longleftrightarrow> \<not> find_fails w \<and> List.find q accounts = Some u"
  by (auto simp: findOne_def)

lemma findOne_found_member:
  assumes "findOne w q accounts = (False, Some u)"
  shows "u \<in> set accounts \<and> q u"
proof -
  from assms have "List.find q accounts = Some u"
    by (simp add: findOne_found_iff)
  then obtain i where "i < length accounts" and "q (accounts ! i)" and "u = accounts ! i"
    unfolding find_Some_iff by blast
  then show ?thesis by simp
qed

section \<open>Reset Password without a link\<close>

text \<open>
  C7. When the \<^verbatim>\<open>resetPasswordLink\<close> of the request body is absent or the empty
  string, \<^verbatim>\<open>resetPassword\<close> sends no response, performs no other effect and leaves
  every stored account as it was.
\<close>

theorem resetPassword_absent_link_noop:
  assumes "rp_resetPasswordLink body = None \<or> rp_resetPasswordLink body = Some ''''"
  shows "resetPassword cfg w body accounts = \<lparr>db = accounts, trace = [], profile = None\<rparr>
         \<and> sent (trace (resetPassword cfg w body accounts)) = None"
  using assms by (auto simp: resetPassword_def start_def)

theorem resetPassword_absent_link_noop_witness:
  "resetPassword cfg0 w0 \<lparr>rp_resetPasswordLink = None, rp_newPassword = ''n''\<rparr>
       [bob\<lparr>resetPasswordLink := ''rst.Bob.60m''\<rparr>]
     = \<lparr>db = [bob\<lparr>resetPasswordLink := ''rst.Bob.60m''\<rparr>], trace = [], profile = None\<rparr>
   \<and> resetPassword cfg0 w0 \<lparr>rp_resetPasswordLink = Some '''', rp_newPassword = ''n''\<rparr> [bob, rob]
     = \<lparr>db = [bob, rob], trace = [], profile = None\<rparr>"
  using
    resetPassword_absent_link_noop
      [of "\<lparr>rp_resetPasswordLink = None, rp_newPassword = ''n''\<rparr>" cfg0 w0
          "[bob\<lparr>resetPasswordLink := ''rst.Bob.60m''\<rparr>]"]
    resetPassword_absent_link_noop
      [of "\<lparr>rp_resetPasswordLink = Some '''', rp_newPassword = ''n''\<rparr>" cfg0 w0 "[bob, rob]"]
  by simp

section \<open>Activation with a token that does not verify\<close>

text \<open>
  C3. When the verification of the token against the activation secret fails, whatever
  the reason, \<^verbatim>\<open>registerActivate\<close> answers with the error "Expired link. Try again"
  at the configured error code, and the store is unchanged: no account is created.
\<close>

theorem registerActivate_rejects_unverified_token:
  assumes "\<not> jwt_verify w token (JWT_ACCOUNT_ACTIVATION cfg)"
  shows "registerActivate cfg w token accounts =
           \<lparr>db = accounts,
            trace = [Responded (APPLICATION_ERROR_CODE cfg) (error_body ''Expired link. Try again'')],
            profile = None\<rparr>"
  using assms by (simp add: registerActivate_def res_json_def start_def)

theorem registerActivate_rejects_unverified_token_witness:
  "\<not> jwt_verify w0 ''rst.Ann.10m'' (JWT_ACCOUNT_ACTIVATION cfg0) \<and>
   registerActivate cfg0 w0 ''rst.Ann.10m'' [bob] =
     \<lparr>db = [bob],
      trace = [Responded 401 (JObject [(''error'', JString ''Expired link. Try again'')])],
      profile = None\<rparr>"
proof -
  have h: "\<not> jwt_verify w0 ''rst.Ann.10m'' (JWT_ACCOUNT_ACTIVATION cfg0)"
    by (simp add: w0_def cfg0_def toy_verify_def)
  show ?thesis
    using h registerActivate_rejects_unverified_token [OF h, of "[bob]"]
    by (simp add: cfg0_def error_body_def)
qed

section \<open>Login\<close>

text \<open>
  C2. When the lookup by email yields a stored account and the account's
  \<^verbatim>\<open>authenticate\<close> rejects the password, \<^verbatim>\<open>login\<close> sends exactly one response, the
  error "Password isn't match. Please try again." at the configured error code; its body
  has no \<^verbatim>\<open>token\<close> field, so no Session Token is returned, and the store is unchanged.
\<close>

theorem login_wrong_password_no_token:
  assumes "findOne w (\<lambda>a. email a = login_email body) accounts = (False, Some u)"
    and "\<not> authenticate w u (login_password body)"
  shows "\<exists>b. login cfg w body accounts =
               \<lparr>db = accounts, trace = [Responded (APPLICATION_ERROR_CODE cfg) b], profile = None\<rparr>
           \<and> b = error_body ''Password isn't match. Please try again.''
           \<and> field b ''token'' = None"
  using assms by (simp add: login_def res_json_def start_def error_body_def)

theorem login_wrong_password_no_token_witness:
  "findOne w0 (\<lambda>a. email a = ''bob@x.com'') [bob, rob] = (False, Some bob)
   \<and> \<not> authenticate w0 bob ''guess''
   \<and> sent (trace (login cfg0 w0 \<lparr>login_email = ''bob@x.com'', login_password = ''guess''\<rparr> [bob, rob]))
       = Some (401, JObject [(''error'', JString ''Password isn't match. Please try again.'')])"
proof -
  have f: "findOne w0 (\<lambda>a. email a = login_email \<lparr>login_email = ''bob@x.com'', login_password = ''guess''\<rparr>)
             [bob, rob] = (False, Some bob)"
    by (simp add: findOne_def w0_def bob_def)
  have a: "\<not> authenticate w0 bob (login_password \<lparr>login_email = ''bob@x.com'', login_password = ''guess''\<rparr>)"
    by (simp add: w0_def bob_def)
  from login_wrong_password_no_token [OF f a, of cfg0] f a show ?thesis
    by (auto simp: cfg0_def error_body_def)
qed

text \<open>
  C9. When the lookup by email yields a stored account and \<^verbatim>\<open>authenticate\<close> accepts
  the password, \<^verbatim>\<open>login\<close> sends exactly one response with status 200 whose body has
  the two fields \<^verbatim>\<open>token\<close> and \<^verbatim>\<open>user\<close>: the token is \<^verbatim>\<open>jwt.sign\<close> of the
  payload holding only the account's \<^verbatim>\<open>_id\<close>, under the session secret with expiry
  7d, and the user object has exactly the fields \<^verbatim>\<open>_id\<close>, \<^verbatim>\<open>name\<close>, \<^verbatim>\<open>email\<close>,
  \<^verbatim>\<open>role\<close> of the account. Neither object has a \<^verbatim>\<open>password\<close> field.
\<close>

theorem login_success_public_fields:
  assumes "findOne w (\<lambda>a. email a = login_email body) accounts = (False, Some u)"
    and "authenticate w u (login_password body)"
  shows "\<exists>b ub. login cfg w body accounts =
                  \<lparr>db = accounts, trace = [Responded 200 b], profile = None\<rparr>
     \<and> b = JObject [(''token'', JString (jwt_sign w (JObject [(''_id'', JString (u_id u))])
                                             (JWT_SECRET cfg) ''7d'')),
                    (''user'', ub)]
     \<and> ub = JObject [(''_id'', JString (u_id u)), (''name'', JString (name u)),
                     (''email'', JString (email u)), (''role'', JString (role u))]
     \<and> keys b = [''token'', ''user'']
     \<and> keys ub = [''_id'', ''name'', ''email'', ''role'']
     \<and> field ub ''password'' = None \<and> field b ''password'' = None"
  using assms by (simp add: login_def res_json_def start_def)

theorem login_success_public_fields_witness:
  "findOne w0 (\<lambda>a. email a = ''bob@x.com'') [bob, rob] = (False, Some bob)
   \<and> authenticate w0 bob ''pw1''
   \<and> sent (trace (login cfg0 w0 \<lparr>login_email = ''bob@x.com'', login_password = ''pw1''\<rparr> [bob, rob]))
       = Some (200, JObject [(''token'', JString ''ses.1.7d''),
                             (''user'', JObject [(''_id'', JString ''1''), (''name'', JString ''Bob''),
                                                 (''email'', JString ''bob@x.com''),
                                                 (''role'', JString ''subscriber'')])])"
proof -
  have f: "findOne w0 (\<lambda>a. email a = login_email \<lparr>login_email = ''bob@x.com'', login_password = ''pw1''\<rparr>)
             [bob, rob] = (False, Some bob)"
    by (simp add: findOne_def w0_def bob_def)
  have a: "authenticate w0 bob (login_password \<lparr>login_email = ''bob@x.com'', login_password = ''pw1''\<rparr>)"
    by (simp add: w0_def bob_def)
  from login_success_public_fields [OF f a, of cfg0] f a show ?thesis
    by (auto simp: cfg0_def w0_def bob_def toy_sign_def)
qed

section \<open>The admin gate\<close>

text \<open>
  C10. \<^verbatim>\<open>adminMiddleware\<close> calls \<^verbatim>\<open>next\<close> exactly when the lookup by the account
  identifier yields an account whose role is the admin role, and then that account is
  \<^verbatim>\<open>req.profile\<close> and nothing is sent. When the lookup yields no account the only
  effect is the response "User is not found"; when it yields an account of another role
  the only effect is the response "Admin resource. Access is denied."; both have the
  configured error code and a body with the single field \<^verbatim>\<open>error\<close>.
\<close>

theorem adminMiddleware_gate:
  "(NextCalled \<in> set (trace (adminMiddleware cfg w i accounts))) =
      (\<exists>u. findOne w (\<lambda>a. u_id a = i) accounts = (False, Some u) \<and> role u = admin_role w)
   \<and> (\<forall>u. findOne w (\<lambda>a. u_id a = i) accounts = (False, Some u) \<and> role u = admin_role w \<longrightarrow>
         adminMiddleware cfg w i accounts = \<lparr>db = accounts, trace = [NextCalled], profile = Some u\<rparr>)
   \<and> (snd (findOne w (\<lambda>a. u_id a = i) accounts) = None \<longrightarrow>
         adminMiddleware cfg w i accounts =
           \<lparr>db = accounts,
            trace = [Responded (APPLICATION_ERROR_CODE cfg)
                       (JObject [(''error'', JString ''User is not found'')])],
            profile = None\<rparr>)
   \<and> (\<forall>u. findOne w (\<lambda>a. u_id a = i) accounts = (False, Some u) \<and> role u \<noteq> admin_role w \<longrightarrow>
         adminMiddleware cfg w i accounts =
           \<lparr>db = accounts,
            trace = [Responded (APPLICATION_ERROR_CODE cfg)
                       (JObject [(''error'', JString ''Admin resource. Access is denied.'')])],
            profile = None\<rparr>)"
  by (auto simp: adminMiddleware_def res_json_def start_def findOne_def error_body_def
           split: option.splits)

theorem adminMiddleware_gate_witness:
  "adminMiddleware cfg0 w0 ''2'' [bob, rob] = \<lparr>db = [bob, rob], trace = [NextCalled], profile = Some rob\<rparr>
   \<and> adminMiddleware cfg0 w0 ''1'' [bob, rob] =
       \<lparr>db = [bob, rob],
        trace = [Responded 401 (JObject [(''error'', JString ''Admin resource. Access is denied.'')])],
        profile = None\<rparr>
   \<and> adminMiddleware cfg0 w0 ''7'' [bob, rob] =
       \<lparr>db = [bob, rob],
        trace = [Responded 401 (JObject [(''error'', JString ''User is not found'')])],
        profile = None\<rparr>"
proof -
  have f2: "findOne w0 (\<lambda>a. u_id a = ''2'') [bob, rob] = (False, Some rob) \<and> role rob = admin_role w0"
    by (simp add: findOne_def w0_def bob_def rob_def)
  have f1: "findOne w0 (\<lambda>a. u_id a = ''1'') [bob, rob] = (False, Some bob) \<and> role bob \<noteq> admin_role w0"
    by (simp add: findOne_def w0_def bob_def rob_def)
  have f7: "snd (findOne w0 (\<lambda>a. u_id a = ''7'') [bob, rob]) = None"
    by (simp add: findOne_def w0_def bob_def rob_def)
  from adminMiddleware_gate [of cfg0 w0 "''2''" "[bob, rob]"] f2
  have a: "adminMiddleware cfg0 w0 ''2'' [bob, rob] =
             \<lparr>db = [bob, rob], trace = [NextCalled], profile = Some rob\<rparr>"
    by blast
  from adminMiddleware_gate [of cfg0 w0 "''1''" "[bob, rob]"] f1
  have b: "adminMiddleware cfg0 w0 ''1'' [bob, rob] =
       \<lparr>db = [bob, rob],
        trace = [Responded (APPLICATION_ERROR_CODE cfg0)
                   (JObject [(''error'', JString ''Admin resource. Access is denied.'')])],
        profile = None\<rparr>"
    by blast
  from adminMiddleware_gate [of cfg0 w0 "''7''" "[bob, rob]"] f7
  have c: "adminMiddleware cfg0 w0 ''7'' [bob, rob] =
       \<lparr>db = [bob, rob],
        trace = [Responded (APPLICATION_ERROR_CODE cfg0)
                   (JObject [(''error'', JString ''User is not found'')])],
        profile = None\<rparr>"
    by blast
  from a b c show ?thesis by (simp add: cfg0_def)
qed

section \<open>Forget Password\<close>

text \<open>
  C6. In every run of \<^verbatim>\<open>forgetPassword\<close>, a call of \<^verbatim>\<open>ses.sendEmail\<close> comes after
  the successful \<^verbatim>\<open>updateOne\<close> that stored the same token in the account's
  \<^verbatim>\<open>resetPasswordLink\<close>, and nothing else comes before it. When the update fails, the
  only effect is the error response "Reset password is failed. Try later." at the
  configured code: no email is sent and the store is unchanged.
\<close>

theorem forgetPassword_persists_before_sending:
  "(\<forall>pre m post. trace (forgetPassword cfg w em accounts) = pre @ SesSendEmail m # post \<longrightarrow>
       (\<exists>u tok. findOne w (\<lambda>a. email a = em) accounts = (False, Some u) \<and> \<not> update_fails w
          \<and> tok = jwt_sign w (JObject [(''name'', JString (name u))]) (JWT_RESET_PASSWORD cfg) ''60m''
          \<and> pre = [UpdatedOne (u_id u) tok] \<and> m = EmailForgetPassword em tok
          \<and> db (forgetPassword cfg w em accounts) =
              map (\<lambda>a. if u_id a = u_id u then a\<lparr>resetPasswordLink := tok\<rparr> else a) accounts))
   \<and> (\<forall>u. findOne w (\<lambda>a. email a = em) accounts = (False, Some u) \<and> update_fails w \<longrightarrow>
         forgetPassword cfg w em accounts =
           \<lparr>db = accounts,
            trace = [Responded (APPLICATION_ERROR_CODE cfg)
                       (error_body ''Reset password is failed. Try later.'')],
            profile = None\<rparr>)"
proof (cases "snd (findOne w (\<lambda>a. email a = em) accounts)")
  case None
  then show ?thesis
    by (auto simp: forgetPassword_def res_json_def start_def append_eq_Cons_conv Cons_eq_append_conv)
next
  case (Some u)
  then have f: "findOne w (\<lambda>a. email a = em) accounts = (False, Some u)"
    by (auto simp: findOne_def split: if_splits)
  show ?thesis
  proof (cases "update_fails w")
    case True
    with Some f show ?thesis
      by (auto simp: forgetPassword_def updateOne_def res_json_def start_def
            append_eq_Cons_conv Cons_eq_append_conv)
  next
    case False
    with Some f show ?thesis
      by (auto simp: forgetPassword_def updateOne_def ses_sendEmail_def throw_def res_json_def
            start_def Let_def append_eq_Cons_conv Cons_eq_append_conv)
  qed
qed

theorem forgetPassword_persists_before_sending_witness:
  "trace (forgetPassword cfg0 w0 ''bob@x.com'' [bob, rob]) =
     [UpdatedOne ''1'' ''rst.Bob.60m''] @ SesSendEmail (EmailForgetPassword ''bob@x.com'' ''rst.Bob.60m'')
       # [Responded 200 (JObject [(''message'',
            JString ''Email has been sent to bob@x.com. Click on the link to reset password'')])]
   \<and> db (forgetPassword cfg0 w0 ''bob@x.com'' [bob, rob]) = [bob\<lparr>resetPasswordLink := ''rst.Bob.60m''\<rparr>, rob]
   \<and> forgetPassword cfg0 (w0\<lparr>update_fails := True\<rparr>) ''bob@x.com'' [bob, rob] =
       \<lparr>db = [bob, rob],
        trace = [Responded 401 (JObject [(''error'', JString ''Reset password is failed. Try later.'')])],
        profile = None\<rparr>"
proof -
  have t: "trace (forgetPassword cfg0 w0 ''bob@x.com'' [bob, rob]) =
     [UpdatedOne ''1'' ''rst.Bob.60m''] @ SesSendEmail (EmailForgetPassword ''bob@x.com'' ''rst.Bob.60m'')
       # [Responded 200 (JObject [(''message'',
            JString ''Email has been sent to bob@x.com. Click on the link to reset password'')])]"
    by (simp add: forgetPassword_def findOne_def updateOne_def ses_sendEmail_def res_json_def
          start_def message_body_def w0_def cfg0_def bob_def rob_def toy_sign_def Let_def)
  have f: "findOne (w0\<lparr>update_fails := True\<rparr>) (\<lambda>a. email a = ''bob@x.com'') [bob, rob] = (False, Some bob)
           \<and> update_fails (w0\<lparr>update_fails := True\<rparr>)"
    by (simp add: findOne_def w0_def bob_def)
  have n: "name bob = ''Bob'' \<and> u_id bob = ''1'' \<and> u_id rob = ''2''"
    by (simp add: bob_def rob_def)
  from forgetPassword_persists_before_sending [of cfg0 w0 "''bob@x.com''" "[bob, rob]"] t
  have d: "\<exists>u tok. findOne w0 (\<lambda>a. email a = ''bob@x.com'') [bob, rob] = (False, Some u)
            \<and> tok = jwt_sign w0 (JObject [(''name'', JString (name u))]) (JWT_RESET_PASSWORD cfg0) ''60m''
            \<and> db (forgetPassword cfg0 w0 ''bob@x.com'' [bob, rob]) =
              map (\<lambda>a. if u_id a = u_id u then a\<lparr>resetPasswordLink := tok\<rparr> else a) [bob, rob]"
    by blast
  have d': "db (forgetPassword cfg0 w0 ''bob@x.com'' [bob, rob]) = [bob\<lparr>resetPasswordLink := ''rst.Bob.60m''\<rparr>, rob]"
    using d n by (auto simp: findOne_def w0_def cfg0_def toy_sign_def bob_def rob_def)
  from forgetPassword_persists_before_sending [of cfg0 "w0\<lparr>update_fails := True\<rparr>" "''bob@x.com''" "[bob, rob]"] f
  have e: "forgetPassword cfg0 (w0\<lparr>update_fails := True\<rparr>) ''bob@x.com'' [bob, rob] =
           \<lparr>db = [bob, rob],
            trace = [Responded (APPLICATION_ERROR_CODE cfg0)
                       (error_body ''Reset password is failed. Try later.'')],
            profile = None\<rparr>"
    by blast
  from t d' e show ?thesis by (simp add: cfg0_def error_body_def)
qed

text \<open>
  C8. The claim is that a failed delivery after a successful update is reported to the
  caller as a JSON error response. The handler does not do so: in the rejection callback
  the argument of \<^verbatim>\<open>res.status\<close> is the undeclared identifier
  \<^verbatim>\<open>APPLICATION_ERROR_CODE\<close>, so a ReferenceError is thrown and no response is ever
  sent, while the token stays stored.
\<close>

theorem forgetPassword_delivery_failure_sends_nothing:
  assumes "findOne w (\<lambda>a. email a = em) accounts = (False, Some u)"
    and "\<not> update_fails w" and "send_fails w"
  shows "\<exists>tok. tok = jwt_sign w (JObject [(''name'', JString (name u))]) (JWT_RESET_PASSWORD cfg) ''60m''
     \<and> forgetPassword cfg w em accounts =
         \<lparr>db = map (\<lambda>a. if u_id a = u_id u then a\<lparr>resetPasswordLink := tok\<rparr> else a) accounts,
          trace = [UpdatedOne (u_id u) tok, SesSendEmail (EmailForgetPassword em tok),
                   Thrown (ReferenceError ''APPLICATION_ERROR_CODE'')],
          profile = None\<rparr>
     \<and> sent (trace (forgetPassword cfg w em accounts)) = None"
  using assms
  by (simp add: forgetPassword_def updateOne_def ses_sendEmail_def throw_def start_def Let_def)

theorem forgetPassword_delivery_failure_sends_nothing_witness:
  "forgetPassword cfg0 (w0\<lparr>send_fails := True\<rparr>) ''bob@x.com'' [bob, rob] =
     \<lparr>db = [bob\<lparr>resetPasswordLink := ''rst.Bob.60m''\<rparr>, rob],
      trace = [UpdatedOne ''1'' ''rst.Bob.60m'',
               SesSendEmail (EmailForgetPassword ''bob@x.com'' ''rst.Bob.60m''),
               Thrown (ReferenceError ''APPLICATION_ERROR_CODE'')],
      profile = None\<rparr>
   \<and> sent (trace (forgetPassword cfg0 (w0\<lparr>send_fails := True\<rparr>) ''bob@x.com'' [bob, rob])) = None"
proof -
  have f: "findOne (w0\<lparr>send_fails := True\<rparr>) (\<lambda>a. email a = ''bob@x.com'') [bob, rob] = (False, Some bob)"
    by (simp add: findOne_def w0_def bob_def)
  have u: "\<not> update_fails (w0\<lparr>send_fails := True\<rparr>)" and s: "send_fails (w0\<lparr>send_fails := True\<rparr>)"
    by (simp_all add: w0_def)
  from forgetPassword_delivery_failure_sends_nothing [OF f u s, of cfg0] show ?thesis
    by (simp add: w0_def cfg0_def toy_sign_def bob_def rob_def)
qed

section \<open>Reset Password\<close>

text \<open>
  C4. When the non-empty link fails the verification against the reset secret but the
  lookup by that link still yields an account, \<^verbatim>\<open>resetPassword\<close> first sends the
  error "Token is expired. Try again later." and then goes on: with a save that succeeds
  it stores the account with \<^verbatim>\<open>password\<close> set to \<^verbatim>\<open>newPassword\<close> and an empty
  \<^verbatim>\<open>resetPasswordLink\<close>; the success response that follows is refused by Express,
  since a response was already sent.
\<close>

theorem resetPassword_unverified_token_still_resets:
  assumes "rp_resetPasswordLink body = Some link" and "link \<noteq> ''''"
    and "\<not> jwt_verify w link (JWT_RESET_PASSWORD cfg)"
    and "findOne w (\<lambda>a. resetPasswordLink a = link) accounts = (False, Some u)"
    and "\<not> save_fails w"
  shows "\<exists>u'. u' = u\<lparr>password := rp_newPassword body, resetPasswordLink := ''''\<rparr>
     \<and> resetPassword cfg w body accounts =
         \<lparr>db = map (\<lambda>a. if u_id a = u_id u then u' else a) accounts,
          trace = [Responded (APPLICATION_ERROR_CODE cfg) (error_body ''Token is expired. Try again later.''),
                   Saved u', Thrown ERR_HTTP_HEADERS_SENT],
          profile = None\<rparr>
     \<and> u' \<in> set (db (resetPassword cfg w body accounts))"
proof -
  from assms(4) have m: "u \<in> set accounts"
    by (simp add: findOne_found_member)
  from assms have r: "resetPassword cfg w body accounts =
         \<lparr>db = map (\<lambda>a. if u_id a = u_id u then u\<lparr>password := rp_newPassword body, resetPasswordLink := ''''\<rparr> else a) accounts,
          trace = [Responded (APPLICATION_ERROR_CODE cfg) (error_body ''Token is expired. Try again later.''),
                   Saved (u\<lparr>password := rp_newPassword body, resetPasswordLink := ''''\<rparr>), Thrown ERR_HTTP_HEADERS_SENT],
          profile = None\<rparr>"
    by (simp add: resetPassword_def save_def res_json_def start_def Let_def)
  from m have "u\<lparr>password := rp_newPassword body, resetPasswordLink := ''''\<rparr>
      \<in> set (map (\<lambda>a. if u_id a = u_id u then u\<lparr>password := rp_newPassword body, resetPasswordLink := ''''\<rparr> else a) accounts)"
    by (force simp: image_iff)
  with r show ?thesis by simp
qed

theorem resetPassword_unverified_token_still_resets_witness:
  "\<not> jwt_verify w0 ''old.Bob.60m'' (JWT_RESET_PASSWORD cfg0)
   \<and> resetPassword cfg0 w0 \<lparr>rp_resetPasswordLink = Some ''old.Bob.60m'', rp_newPassword = ''n1''\<rparr>
       [bob\<lparr>resetPasswordLink := ''old.Bob.60m''\<rparr>, rob] =
       \<lparr>db = [bob\<lparr>password := ''n1''\<rparr>, rob],
        trace = [Responded 401 (JObject [(''error'', JString ''Token is expired. Try again later.'')]),
                 Saved (bob\<lparr>password := ''n1''\<rparr>), Thrown ERR_HTTP_HEADERS_SENT],
        profile = None\<rparr>"
proof -
  let ?body = "\<lparr>rp_resetPasswordLink = Some ''old.Bob.60m'', rp_newPassword = ''n1''\<rparr>"
  let ?accounts = "[bob\<lparr>resetPasswordLink := ''old.Bob.60m''\<rparr>, rob]"
  have a1: "rp_resetPasswordLink ?body = Some ''old.Bob.60m''" by simp
  have a2: "''old.Bob.60m'' \<noteq> ''''" by simp
  have a3: "\<not> jwt_verify w0 ''old.Bob.60m'' (JWT_RESET_PASSWORD cfg0)"
    by (simp add: w0_def cfg0_def toy_verify_def)
  have a4: "findOne w0 (\<lambda>a. resetPasswordLink a = ''old.Bob.60m'') ?accounts
              = (False, Some (bob\<lparr>resetPasswordLink := ''old.Bob.60m''\<rparr>))"
    by (simp add: findOne_def w0_def bob_def)
  have a5: "\<not> save_fails w0" by (simp add: w0_def)
  from resetPassword_unverified_token_still_resets [OF a1 a2 a3 a4 a5] a3 show ?thesis
    by (simp add: cfg0_def error_body_def bob_def rob_def)
qed

section \<open>Facts about lookups in an updated store\<close>

lemma find_map_preserving:
  assumes "\<And>a. q (f a) = q a"
  shows "List.find q (map f xs) = map_option f (List.find q xs)"
  using assms by (induction xs) simp_all

lemma find_link_overwritten:
  assumes "\<forall>a\<in>set xs. resetPasswordLink a = t \<longrightarrow> u_id a = i"
    and "resetPasswordLink (g u) \<noteq> t" and "\<And>a. resetPasswordLink (h a) \<noteq> t"
  shows "List.find (\<lambda>a. resetPasswordLink a = t) (map (\<lambda>a. if u_id a = i then h a else a) xs) = None"
  using assms by (induction xs) auto

lemma forgetPassword_db:
  assumes "findOne w (\<lambda>a. email a = em) accounts = (False, Some u)" and "\<not> update_fails w"
  shows "db (forgetPassword cfg w em accounts) =
           map (\<lambda>a. if u_id a = u_id u
                     then a\<lparr>resetPasswordLink :=
                            jwt_sign w (JObject [(''name'', JString (name u))]) (JWT_RESET_PASSWORD cfg) ''60m''\<rparr>
                     else a) accounts"
  using assms
  by (simp add: forgetPassword_def updateOne_def ses_sendEmail_def throw_def res_json_def
        start_def Let_def)

lemma resetPassword_no_match:
  assumes "rp_resetPasswordLink body = Some t" and "t \<noteq> ''''"
    and "List.find (\<lambda>a. resetPasswordLink a = t) accounts = None"
  shows "resetPassword cfg w body accounts =
           \<lparr>db = accounts,
            trace = (if jwt_verify w t (JWT_RESET_PASSWORD cfg)
                     then [Responded (APPLICATION_ERROR_CODE cfg)
                             (error_body ''Password reset failed. Try again later.'')]
                     else [Responded (APPLICATION_ERROR_CODE cfg)
                             (error_body ''Token is expired. Try again later.''),
                           Thrown ERR_HTTP_HEADERS_SENT]),
            profile = None\<rparr>"
  using assms by (simp add: resetPassword_def findOne_def res_json_def start_def Let_def)

section \<open>Single use of a reset token\<close>

text \<open>
  C1, as stated, fails on the handler. Two accounts with the same display name that ask
  for a reset within the same second get the same token, and both store it. The first
  \<^verbatim>\<open>resetPassword\<close> with that token resets the first account; the replay does not
  fail: it finds the second account, overwrites its password and answers with the
  success message.
\<close>

theorem resetPassword_replay_counterexample:
  "db (forgetPassword cfg0 w0 ''rob@x.com'' (db (forgetPassword cfg0 w0 ''bob@x.com'' [bob, rob])))
     = [bob\<lparr>resetPasswordLink := ''rst.Bob.60m''\<rparr>, rob\<lparr>resetPasswordLink := ''rst.Bob.60m''\<rparr>]
   \<and> jwt_verify w0 ''rst.Bob.60m'' (JWT_RESET_PASSWORD cfg0)
   \<and> resetPassword cfg0 w0 \<lparr>rp_resetPasswordLink = Some ''rst.Bob.60m'', rp_newPassword = ''n1''\<rparr>
        [bob\<lparr>resetPasswordLink := ''rst.Bob.60m''\<rparr>, rob\<lparr>resetPasswordLink := ''rst.Bob.60m''\<rparr>]
      = \<lparr>db = [bob\<lparr>password := ''n1''\<rparr>, rob\<lparr>resetPasswordLink := ''rst.Bob.60m''\<rparr>],
         trace = [Saved (bob\<lparr>password := ''n1''\<rparr>),
                  Responded 200 (JObject [(''message'', JString ''Reset password is success.'')])],
         profile = None\<rparr>
   \<and> resetPassword cfg0 w0 \<lparr>rp_resetPasswordLink = Some ''rst.Bob.60m'', rp_newPassword = ''n2''\<rparr>
        [bob\<lparr>password := ''n1''\<rparr>, rob\<lparr>resetPasswordLink := ''rst.Bob.60m''\<rparr>]
      = \<lparr>db = [bob\<lparr>password := ''n1''\<rparr>, rob\<lparr>password := ''n2''\<rparr>],
         trace = [Saved (rob\<lparr>password := ''n2''\<rparr>),
                  Responded 200 (JObject [(''message'', JString ''Reset password is success.'')])],
         profile = None\<rparr>"
  by (simp add: forgetPassword_def resetPassword_def findOne_def updateOne_def save_def
        ses_sendEmail_def res_json_def start_def message_body_def Let_def
        w0_def cfg0_def toy_sign_def toy_verify_def bob_def rob_def)

text \<open>
  C1 as amended. A non-empty link that verifies and for which the lookup yields an
  account, with a save that succeeds: \<^verbatim>\<open>resetPassword\<close> stores that account with
  \<^verbatim>\<open>password = newPassword\<close> and an empty \<^verbatim>\<open>resetPasswordLink\<close> and answers with
  the success message. If no account with another identifier stores the same link, a
  replay of the link, while it still verifies, changes nothing and gets the error
  "Password reset failed. Try again later." at the configured code.
\<close>

theorem resetPassword_single_use:
  assumes "rp_resetPasswordLink body = Some link" and "link \<noteq> ''''"
    and "jwt_verify w link (JWT_RESET_PASSWORD cfg)"
    and "findOne w (\<lambda>a. resetPasswordLink a = link) accounts = (False, Some u)"
    and "\<not> save_fails w"
    and "\<forall>a\<in>set accounts. resetPasswordLink a = link \<longrightarrow> u_id a = u_id u"
    and "rp_resetPasswordLink body' = Some link"
    and "jwt_verify w' link (JWT_RESET_PASSWORD cfg)"
  shows "\<exists>u' accounts'. u' = u\<lparr>password := rp_newPassword body, resetPasswordLink := ''''\<rparr>
     \<and> accounts' = map (\<lambda>a. if u_id a = u_id u then u' else a) accounts
     \<and> u' \<in> set accounts'
     \<and> resetPassword cfg w body accounts =
         \<lparr>db = accounts',
          trace = [Saved u', Responded 200 (message_body ''Reset password is success.'')],
          profile = None\<rparr>
     \<and> resetPassword cfg w' body' accounts' =
         \<lparr>db = accounts',
          trace = [Responded (APPLICATION_ERROR_CODE cfg)
                     (error_body ''Password reset failed. Try again later.'')],
          profile = None\<rparr>"
proof -
  let ?u' = "u\<lparr>password := rp_newPassword body, resetPasswordLink := ''''\<rparr>"
  let ?accounts' = "map (\<lambda>a. if u_id a = u_id u then ?u' else a) accounts"
  from assms(4) have "u \<in> set accounts"
    by (simp add: findOne_found_member)
  then have mem: "?u' \<in> set ?accounts'"
    by (force simp: image_iff)
  from assms(1-5) have first: "resetPassword cfg w body accounts =
         \<lparr>db = ?accounts',
          trace = [Saved ?u', Responded 200 (message_body ''Reset password is success.'')],
          profile = None\<rparr>"
    by (simp add: resetPassword_def save_def res_json_def start_def Let_def)
  from assms(2) have "resetPasswordLink ?u' \<noteq> link"
    by auto
  with assms(6) have "List.find (\<lambda>a. resetPasswordLink a = link) ?accounts' = None"
    by (intro find_link_overwritten [where h = "\<lambda>a. ?u'" and g = "\<lambda>a. ?u'"]) simp_all
  with assms(2,7,8) have replay: "resetPassword cfg w' body' ?accounts' =
         \<lparr>db = ?accounts',
          trace = [Responded (APPLICATION_ERROR_CODE cfg)
                     (error_body ''Password reset failed. Try again later.'')],
          profile = None\<rparr>"
    by (simp add: resetPassword_no_match)
  from mem first replay show ?thesis by simp
qed

theorem resetPassword_single_use_witness:
  "resetPassword cfg0 w0 \<lparr>rp_resetPasswordLink = Some ''rst.Bob.60m'', rp_newPassword = ''n1''\<rparr>
        [bob\<lparr>resetPasswordLink := ''rst.Bob.60m''\<rparr>, rob]
      = \<lparr>db = [bob\<lparr>password := ''n1''\<rparr>, rob],
         trace = [Saved (bob\<lparr>password := ''n1''\<rparr>),
                  Responded 200 (JObject [(''message'', JString ''Reset password is success.'')])],
         profile = None\<rparr>
   \<and> resetPassword cfg0 w0 \<lparr>rp_resetPasswordLink = Some ''rst.Bob.60m'', rp_newPassword = ''n2''\<rparr>
        [bob\<lparr>password := ''n1''\<rparr>, rob]
      = \<lparr>db = [bob\<lparr>password := ''n1''\<rparr>, rob],
         trace = [Responded 401 (JObject [(''error'', JString ''Password reset failed. Try again later.'')])],
         profile = None\<rparr>"
proof -
  let ?body = "\<lparr>rp_resetPasswordLink = Some ''rst.Bob.60m'', rp_newPassword = ''n1''\<rparr>"
  let ?body' = "\<lparr>rp_resetPasswordLink = Some ''rst.Bob.60m'', rp_newPassword = ''n2''\<rparr>"
  let ?accounts = "[bob\<lparr>resetPasswordLink := ''rst.Bob.60m''\<rparr>, rob]"
  have a1: "rp_resetPasswordLink ?body = Some ''rst.Bob.60m''" by simp
  have a2: "''rst.Bob.60m'' \<noteq> ''''" by simp
  have a3: "jwt_verify w0 ''rst.Bob.60m'' (JWT_RESET_PASSWORD cfg0)"
    by (simp add: w0_def cfg0_def toy_verify_def)
  have a4: "findOne w0 (\<lambda>a. resetPasswordLink a = ''rst.Bob.60m'') ?accounts
              = (False, Some (bob\<lparr>resetPasswordLink := ''rst.Bob.60m''\<rparr>))"
    by (simp add: findOne_def w0_def bob_def)
  have a5: "\<not> save_fails w0" by (simp add: w0_def)
  have a6: "\<forall>a\<in>set ?accounts. resetPasswordLink a = ''rst.Bob.60m''
              \<longrightarrow> u_id a = u_id (bob\<lparr>resetPasswordLink := ''rst.Bob.60m''\<rparr>)"
    by (simp add: bob_def rob_def)
  have a7: "rp_resetPasswordLink ?body' = Some ''rst.Bob.60m''" by simp
  from resetPassword_single_use [OF a1 a2 a3 a4 a5 a6 a7 a3] show ?thesis
    by (simp add: cfg0_def error_body_def message_body_def bob_def rob_def)
qed

section \<open>Issuing a second reset token\<close>

text \<open>
  C5, as stated, fails on the handler. A first token is issued, and after its hour has
  passed a second one, which overwrites the stored link. A \<^verbatim>\<open>resetPassword\<close> with
  the first token then fails the verification, and the response the caller receives is
  "Token is expired. Try again later.", not the error of the failed lookup, whose
  response Express refuses afterwards.
\<close>

theorem resetPassword_stale_token_counterexample:
  "db (forgetPassword cfg0 w0 ''bob@x.com'' [bob, rob]) = [bob\<lparr>resetPasswordLink := ''rst.Bob.60m''\<rparr>, rob]
   \<and> db (forgetPassword cfg0 w_later ''bob@x.com'' [bob\<lparr>resetPasswordLink := ''rst.Bob.60m''\<rparr>, rob])
       = [bob\<lparr>resetPasswordLink := ''rst.Bob.60m.later''\<rparr>, rob]
   \<and> resetPassword cfg0 w_later \<lparr>rp_resetPasswordLink = Some ''rst.Bob.60m'', rp_newPassword = ''n1''\<rparr>
        [bob\<lparr>resetPasswordLink := ''rst.Bob.60m.later''\<rparr>, rob]
      = \<lparr>db = [bob\<lparr>resetPasswordLink := ''rst.Bob.60m.later''\<rparr>, rob],
         trace = [Responded 401 (JObject [(''error'', JString ''Token is expired. Try again later.'')]),
                  Thrown ERR_HTTP_HEADERS_SENT],
         profile = None\<rparr>
   \<and> sent (trace (resetPassword cfg0 w_later
                     \<lparr>rp_resetPasswordLink = Some ''rst.Bob.60m'', rp_newPassword = ''n1''\<rparr>
                     [bob\<lparr>resetPasswordLink := ''rst.Bob.60m.later''\<rparr>, rob]))
       \<noteq> Some (401, JObject [(''error'', JString ''Password reset failed. Try again later.'')])"
  by (simp add: forgetPassword_def resetPassword_def findOne_def updateOne_def save_def
        ses_sendEmail_def res_json_def start_def message_body_def error_body_def Let_def
        w_later_def w0_def cfg0_def toy_sign_def toy_verify_def bob_def rob_def)

text \<open>
  C5 as amended. When \<^verbatim>\<open>forgetPassword\<close> runs twice for the same account and both
  updates succeed, the account's \<^verbatim>\<open>resetPasswordLink\<close> holds the second token and
  every other account is as before. If the first token is not empty, differs from the
  second and is stored by no account with another identifier, a later
  \<^verbatim>\<open>resetPassword\<close> with the first token changes no account, and the caller receives
  an error at the configured code: "Password reset failed. Try again later." when the
  token still verifies, "Token is expired. Try again later." when it does not.
\<close>

theorem forgetPassword_reissue_invalidates_stale_token:
  assumes "findOne w (\<lambda>a. email a = em) accounts = (False, Some u)"
    and "\<not> update_fails w" and "\<not> find_fails w'" and "\<not> update_fails w'"
    and "t = jwt_sign w (JObject [(''name'', JString (name u))]) (JWT_RESET_PASSWORD cfg) ''60m''"
    and "t' = jwt_sign w' (JObject [(''name'', JString (name u))]) (JWT_RESET_PASSWORD cfg) ''60m''"
    and "t \<noteq> t'" and "t \<noteq> ''''"
    and "\<forall>a\<in>set accounts. resetPasswordLink a = t \<longrightarrow> u_id a = u_id u"
    and "rp_resetPasswordLink body = Some t"
  shows "\<exists>accounts'. accounts' = db (forgetPassword cfg w' em (db (forgetPassword cfg w em accounts)))
     \<and> accounts' = map (\<lambda>a. if u_id a = u_id u then a\<lparr>resetPasswordLink := t'\<rparr> else a) accounts
     \<and> resetPassword cfg w'' body accounts' =
         \<lparr>db = accounts',
          trace = (if jwt_verify w'' t (JWT_RESET_PASSWORD cfg)
                   then [Responded (APPLICATION_ERROR_CODE cfg)
                           (error_body ''Password reset failed. Try again later.'')]
                   else [Responded (APPLICATION_ERROR_CODE cfg)
                           (error_body ''Token is expired. Try again later.''),
                         Thrown ERR_HTTP_HEADERS_SENT]),
          profile = None\<rparr>
     \<and> sent (trace (resetPassword cfg w'' body accounts')) =
         Some (APPLICATION_ERROR_CODE cfg,
               if jwt_verify w'' t (JWT_RESET_PASSWORD cfg)
               then error_body ''Password reset failed. Try again later.''
               else error_body ''Token is expired. Try again later.'')"
proof -
  let ?f = "\<lambda>a. if u_id a = u_id u then a\<lparr>resetPasswordLink := t\<rparr> else a"
  let ?g = "\<lambda>a. if u_id a = u_id u then a\<lparr>resetPasswordLink := t'\<rparr> else a"
  have d1: "db (forgetPassword cfg w em accounts) = map ?f accounts"
    using assms(1,2,5) by (simp add: forgetPassword_db)
  from assms(1) have fu: "List.find (\<lambda>a. email a = em) accounts = Some u"
    by (simp add: findOne_found_iff)
  have "List.find (\<lambda>a. email a = em) (map ?f accounts) = map_option ?f (List.find (\<lambda>a. email a = em) accounts)"
    by (rule find_map_preserving) simp
  with fu assms(3) have f2: "findOne w' (\<lambda>a. email a = em) (map ?f accounts) = (False, Some (u\<lparr>resetPasswordLink := t\<rparr>))"
    by (simp add: findOne_def)
  have "db (forgetPassword cfg w' em (map ?f accounts)) =
          map (\<lambda>a. if u_id a = u_id (u\<lparr>resetPasswordLink := t\<rparr>)
                    then a\<lparr>resetPasswordLink :=
                           jwt_sign w' (JObject [(''name'', JString (name (u\<lparr>resetPasswordLink := t\<rparr>)))])
                             (JWT_RESET_PASSWORD cfg) ''60m''\<rparr>
                    else a) (map ?f accounts)"
    using f2 assms(4) by (rule forgetPassword_db)
  also have "\<dots> = map ?g accounts"
    using assms(6) by simp
  finally have d2: "db (forgetPassword cfg w' em (db (forgetPassword cfg w em accounts))) = map ?g accounts"
    by (simp add: d1)
  have "List.find (\<lambda>a. resetPasswordLink a = t) (map (\<lambda>a. if u_id a = u_id u then (\<lambda>a. a\<lparr>resetPasswordLink := t'\<rparr>) a else a) accounts) = None"
    using assms(9) by (rule find_link_overwritten [where g = "\<lambda>a. a\<lparr>resetPasswordLink := t'\<rparr>"]) (simp_all add: assms(7) [symmetric])
  then have none: "List.find (\<lambda>a. resetPasswordLink a = t) (map ?g accounts) = None"
    by simp
  have r: "resetPassword cfg w'' body (map ?g accounts) =
         \<lparr>db = map ?g accounts,
          trace = (if jwt_verify w'' t (JWT_RESET_PASSWORD cfg)
                   then [Responded (APPLICATION_ERROR_CODE cfg)
                           (error_body ''Password reset failed. Try again later.'')]
                   else [Responded (APPLICATION_ERROR_CODE cfg)
                           (error_body ''Token is expired. Try again later.''),
                         Thrown ERR_HTTP_HEADERS_SENT]),
          profile = None\<rparr>"
    using assms(10,8) none by (rule resetPassword_no_match)
  from d2 r show ?thesis by simp
qed

theorem forgetPassword_reissue_invalidates_stale_token_witness:
  "db (forgetPassword cfg0 w_later ''bob@x.com'' (db (forgetPassword cfg0 w0 ''bob@x.com'' [bob, rob])))
     = [bob\<lparr>resetPasswordLink := ''rst.Bob.60m.later''\<rparr>, rob]
   \<and> resetPassword cfg0 w0 \<lparr>rp_resetPasswordLink = Some ''rst.Bob.60m'', rp_newPassword = ''n1''\<rparr>
        [bob\<lparr>resetPasswordLink := ''rst.Bob.60m.later''\<rparr>, rob]
      = \<lparr>db = [bob\<lparr>resetPasswordLink := ''rst.Bob.60m.later''\<rparr>, rob],
         trace = [Responded 401 (JObject [(''error'', JString ''Password reset failed. Try again later.'')])],
         profile = None\<rparr>"
proof -
  let ?body = "\<lparr>rp_resetPasswordLink = Some ''rst.Bob.60m'', rp_newPassword = ''n1''\<rparr>"
  have a1: "findOne w0 (\<lambda>a. email a = ''bob@x.com'') [bob, rob] = (False, Some bob)"
    by (simp add: findOne_def w0_def bob_def)
  have a2: "\<not> update_fails w0" and a3: "\<not> find_fails w_later" and a4: "\<not> update_fails w_later"
    by (simp_all add: w0_def w_later_def)
  have a5: "''rst.Bob.60m'' = jwt_sign w0 (JObject [(''name'', JString (name bob))]) (JWT_RESET_PASSWORD cfg0) ''60m''"
    by (simp add: w0_def cfg0_def toy_sign_def bob_def)
  have a6: "''rst.Bob.60m.later'' = jwt_sign w_later (JObject [(''name'', JString (name bob))]) (JWT_RESET_PASSWORD cfg0) ''60m''"
    by (simp add: w_later_def w0_def cfg0_def toy_sign_def bob_def)
  have a7: "''rst.Bob.60m'' \<noteq> ''rst.Bob.60m.later''" and a8: "''rst.Bob.60m'' \<noteq> ''''"
    by simp_all
  have a9: "\<forall>a\<in>set [bob, rob]. resetPasswordLink a = ''rst.Bob.60m'' \<longrightarrow> u_id a = u_id bob"
    by (simp add: bob_def rob_def)
  have a10: "rp_resetPasswordLink ?body = Some ''rst.Bob.60m''" by simp
  have v: "jwt_verify w0 ''rst.Bob.60m'' (JWT_RESET_PASSWORD cfg0)"
    by (simp add: w0_def cfg0_def toy_verify_def)
  let ?accounts' = "db (forgetPassword cfg0 w_later ''bob@x.com'' (db (forgetPassword cfg0 w0 ''bob@x.com'' [bob, rob])))"
  from forgetPassword_reissue_invalidates_stale_token [OF a1 a2 a3 a4 a5 a6 a7 a8 a9 a10, of w0]
  have d: "?accounts' = map (\<lambda>a. if u_id a = u_id bob then a\<lparr>resetPasswordLink := ''rst.Bob.60m.later''\<rparr> else a) [bob, rob]"
    and r: "resetPassword cfg0 w0 ?body ?accounts' =
         \<lparr>db = ?accounts',
          trace = (if jwt_verify w0 ''rst.Bob.60m'' (JWT_RESET_PASSWORD cfg0)
                   then [Responded (APPLICATION_ERROR_CODE cfg0)
                           (error_body ''Password reset failed. Try again later.'')]
                   else [Responded (APPLICATION_ERROR_CODE cfg0)
                           (error_body ''Token is expired. Try again later.''),
                         Thrown ERR_HTTP_HEADERS_SENT]),
          profile = None\<rparr>"
    by blast+
  have d': "?accounts' = [bob\<lparr>resetPasswordLink := ''rst.Bob.60m.later''\<rparr>, rob]"
    unfolding d by (simp add: bob_def rob_def)
  from r v show ?thesis
    unfolding d' by (simp add: cfg0_def error_body_def)
qed

end
